theory Spec2Isabelle
  imports Main "HOL-Library.Multiset"
begin

section \<open>Go values used by \<open>replicasetlist.go\<close>\<close>

text \<open>
  A Go slice is either \<open>nil\<close> or a (possibly empty) sequence of elements. The two are
  told apart by \<open>== nil\<close> and by the JSON encoder (\<open>null\<close> against \<open>[]\<close>), so the
  model keeps both. \<open>elems\<close> is what \<open>for _, x := range s\<close> visits, \<open>append_slice\<close> is
  \<open>append(s, x)\<close>: appending to the nil slice gives a non-nil one.
\<close>

datatype 'a slice = NilSlice | Slice "'a list"

fun elems :: "'a slice \<Rightarrow> 'a list" where
  "elems NilSlice = []"
| "elems (Slice xs) = xs"

fun append_slice :: "'a slice \<Rightarrow> 'a \<Rightarrow> 'a slice" where
  "append_slice NilSlice x = Slice [x]"
| "append_slice (Slice xs) x = Slice (xs @ [x])"

text \<open>
  A \<open>map[string]string\<close> is \<open>nil\<close> or a finite table. The table is kept as the list of
  its entries in the order one \<open>range\<close> over it happens to visit them (Go leaves that order
  open, so every theorem below holds for every order). \<open>len_map\<close> is \<open>len(m)\<close>,
  \<open>index_map\<close> the two-valued index expression \<open>v, ok := m[k]\<close> (\<open>None\<close> for
  \<open>ok = false\<close>), \<open>index_or_zero\<close> the one-valued \<open>m[k]\<close>, which yields the empty string
  for a missing key. All three treat \<open>nil\<close> as empty.
\<close>

datatype strmap = NilMap | GoMap "(string \<times> string) list"

fun entries :: "strmap \<Rightarrow> (string \<times> string) list" where
  "entries NilMap = []"
| "entries (GoMap kvs) = kvs"

definition len_map :: "strmap \<Rightarrow> nat" where
  "len_map m = length (entries m)"

definition index_map :: "strmap \<Rightarrow> string \<Rightarrow> string option" where
  "index_map m k = map_of (entries m) k"

definition index_or_zero :: "strmap \<Rightarrow> string \<Rightarrow> string" where
  "index_or_zero m k = (case index_map m k of None \<Rightarrow> [] | Some v \<Rightarrow> v)"

section \<open>The Kubernetes API objects, as far as the file reads them\<close>

text \<open>
  Only the fields that \<open>replicasetlist.go\<close> reads are kept. Field names are the Go ones,
  with a prefix where two structs share a name. \<open>Time\<close> stands for \<open>unversioned.Time\<close>,
  which the code only copies. The path \<open>replicaSet.Spec.Template.Spec.Containers\<close> is read
  as the file writes it, through a template that is there.
\<close>

type_synonym Time = int

record ObjectMeta =
  Name :: string
  Namespace :: string
  Labels :: strmap
  Annotations :: strmap
  CreationTimestamp :: Time

record Container =
  Image :: string

record PodSpec =
  Containers :: "Container slice"

record PodTemplateSpec =
  template_Spec :: PodSpec

record ReplicationControllerSpec =
  rc_Replicas :: int
  rc_Selector :: strmap
  Template :: PodTemplateSpec

record ReplicationControllerStatus =
  status_Replicas :: int

record ReplicationController =
  rc_ObjectMeta :: ObjectMeta
  rc_Spec :: ReplicationControllerSpec
  rc_Status :: ReplicationControllerStatus

record ServicePort =
  Port :: int
  Protocol :: string

type_synonym LoadBalancerIngress = string

record ServiceSpec =
  svc_Selector :: strmap
  Ports :: "ServicePort slice"

record LoadBalancerStatus =
  Ingress :: "LoadBalancerIngress slice"

record ServiceStatus =
  LoadBalancer :: LoadBalancerStatus

record Service =
  svc_ObjectMeta :: ObjectMeta
  svc_Spec :: ServiceSpec
  svc_Status :: ServiceStatus

text \<open>
  \<open>api.PodPhase\<close> is a string type with five named constants; \<open>PodPhaseOther\<close> stands for
  every other string a pod status may carry.
\<close>

datatype PodPhase =
  PodPending | PodRunning | PodSucceeded | PodFailed | PodUnknown | PodPhaseOther string

record PodStatus =
  Phase :: PodPhase

record Pod =
  pod_ObjectMeta :: ObjectMeta
  pod_Status :: PodStatus

section \<open>The model objects of the backend\<close>

record ReplicaSetPodInfo =
  Curret :: int
  Desired :: int
  Running :: int
  Waiting :: int
  Failed :: int

text \<open>
  Modelled from the spec: the type \<open>Endpoint\<close> and the functions \<open>getInternalEndpoint\<close>
  and \<open>getExternalEndpoint\<close> are declared in another file of the backend. The spec
  gives an internal endpoint as \<open>{name: service.name, namespace: service.namespace,
  ports: service.ports}\<close> and an external endpoint as \<open>{address: ingressEntry,
  ports: service.ports}\<close>.
\<close>

datatype Endpoint =
  InternalEndpoint string string "ServicePort slice"
| ExternalEndpoint LoadBalancerIngress "ServicePort slice"

definition getInternalEndpoint :: "string \<Rightarrow> string \<Rightarrow> ServicePort slice \<Rightarrow> Endpoint" where
  "getInternalEndpoint serviceName namespace ports = InternalEndpoint serviceName namespace ports"

definition getExternalEndpoint :: "LoadBalancerIngress \<Rightarrow> ServicePort slice \<Rightarrow> Endpoint" where
  "getExternalEndpoint ingress ports = ExternalEndpoint ingress ports"

record ReplicaSet =
  rs_Name :: string
  rs_Namespace :: string
  rs_Description :: string
  rs_Labels :: strmap
  rs_Pods :: ReplicaSetPodInfo
  rs_ContainerImages :: "string slice"
  rs_CreationTime :: Time
  rs_InternalEndpoints :: "Endpoint slice"
  rs_ExternalEndpoints :: "Endpoint slice"

record ReplicaSetList =
  ReplicaSets :: "ReplicaSet slice"

section \<open>\<open>isLabelSelectorMatching\<close>\<close>

text \<open>
  The \<open>range\<close> loop over the selector: the first entry whose label is missing from the
  tested labels, or is there with another value, ends the function with \<open>false\<close>.
\<close>

fun isLabelSelectorMatching_loop :: "(string \<times> string) list \<Rightarrow> strmap \<Rightarrow> bool" where
  "isLabelSelectorMatching_loop [] testedObjectLabels = True"
| "isLabelSelectorMatching_loop ((label, value) # rest) testedObjectLabels =
     (case index_map testedObjectLabels label of
        None \<Rightarrow> False
      | Some rsValue \<Rightarrow>
          if rsValue \<noteq> value then False
          else isLabelSelectorMatching_loop rest testedObjectLabels)"

definition isLabelSelectorMatching :: "strmap \<Rightarrow> strmap \<Rightarrow> bool" where
  "isLabelSelectorMatching labelSelector testedObjectLabels =
     (if len_map labelSelector = 0 then False
      else isLabelSelectorMatching_loop (entries labelSelector) testedObjectLabels)"

section \<open>\<open>getMatchingServices\<close>\<close>

fun getMatchingServices_loop ::
  "Service list \<Rightarrow> ReplicationController \<Rightarrow> Service slice \<Rightarrow> Service slice" where
  "getMatchingServices_loop [] replicaSet matchingServices = matchingServices"
| "getMatchingServices_loop (service # rest) replicaSet matchingServices =
     getMatchingServices_loop rest replicaSet
       (if Namespace (svc_ObjectMeta service) = Namespace (rc_ObjectMeta replicaSet) \<and>
           isLabelSelectorMatching (svc_Selector (svc_Spec service))
             (rc_Selector (rc_Spec replicaSet))
        then append_slice matchingServices service
        else matchingServices)"

definition getMatchingServices ::
  "Service slice \<Rightarrow> ReplicationController \<Rightarrow> Service slice" where
  "getMatchingServices services replicaSet =
     getMatchingServices_loop (elems services) replicaSet NilSlice"

section \<open>\<open>getReplicaSetPodInfo\<close>\<close>

text \<open>
  The counters are Go \<open>int\<close>s that start at zero and grow by one per pod of a slice, whose
  length is itself an \<open>int\<close>: they cannot wrap, and are modelled as integers.
\<close>

fun getReplicaSetPodInfo_loop ::
  "ReplicationController \<Rightarrow> Pod list \<Rightarrow> ReplicaSetPodInfo \<Rightarrow> ReplicaSetPodInfo" where
  "getReplicaSetPodInfo_loop replicaSet [] result = result"
| "getReplicaSetPodInfo_loop replicaSet (pod # rest) result =
     getReplicaSetPodInfo_loop replicaSet rest
       (if Namespace (pod_ObjectMeta pod) = Namespace (rc_ObjectMeta replicaSet) \<and>
           isLabelSelectorMatching (rc_Selector (rc_Spec replicaSet))
             (Labels (pod_ObjectMeta pod))
        then (case Phase (pod_Status pod) of
                PodRunning \<Rightarrow> result\<lparr>Running := Running result + 1\<rparr>
              | PodPending \<Rightarrow> result\<lparr>Waiting := Waiting result + 1\<rparr>
              | PodFailed \<Rightarrow> result\<lparr>Failed := Failed result + 1\<rparr>
              | _ \<Rightarrow> result)
        else result)"

definition getReplicaSetPodInfo ::
  "ReplicationController \<Rightarrow> Pod slice \<Rightarrow> ReplicaSetPodInfo" where
  "getReplicaSetPodInfo replicaSet pods =
     getReplicaSetPodInfo_loop replicaSet (elems pods)
       \<lparr>Curret = status_Replicas (rc_Status replicaSet),
        Desired = rc_Replicas (rc_Spec replicaSet),
        Running = 0, Waiting = 0, Failed = 0\<rparr>"

section \<open>\<open>getReplicaSetList\<close>\<close>

fun containerImages_loop :: "Container list \<Rightarrow> string slice \<Rightarrow> string slice" where
  "containerImages_loop [] containerImages = containerImages"
| "containerImages_loop (container # rest) containerImages =
     containerImages_loop rest (append_slice containerImages (Image container))"

fun externalEndpoints_loop ::
  "LoadBalancerIngress list \<Rightarrow> ServicePort slice \<Rightarrow> Endpoint slice \<Rightarrow> Endpoint slice" where
  "externalEndpoints_loop [] ports externalEndpoints = externalEndpoints"
| "externalEndpoints_loop (externalIP # rest) ports externalEndpoints =
     externalEndpoints_loop rest ports
       (append_slice externalEndpoints (getExternalEndpoint externalIP ports))"

text \<open>The loop over the matching services carries both endpoint slices.\<close>

fun endpoints_loop ::
  "Service list \<Rightarrow> Endpoint slice \<times> Endpoint slice \<Rightarrow> Endpoint slice \<times> Endpoint slice" where
  "endpoints_loop [] (internalEndpoints, externalEndpoints) =
     (internalEndpoints, externalEndpoints)"
| "endpoints_loop (service # rest) (internalEndpoints, externalEndpoints) =
     endpoints_loop rest
       (append_slice internalEndpoints
          (getInternalEndpoint (Name (svc_ObjectMeta service))
             (Namespace (svc_ObjectMeta service)) (Ports (svc_Spec service))),
        externalEndpoints_loop (elems (Ingress (LoadBalancer (svc_Status service))))
          (Ports (svc_Spec service)) externalEndpoints)"

text \<open>
  The constant \<open>DescriptionAnnotationKey\<close> is declared in another file; the model takes it
  as the parameter \<open>descriptionAnnotationKey\<close>. The result of the Go function is a pointer
  to a freshly allocated \<open>ReplicaSetList\<close>, never \<open>nil\<close>; the model returns the struct.
\<close>

fun getReplicaSetList_loop ::
  "string \<Rightarrow> ReplicationController list \<Rightarrow> Service slice \<Rightarrow> Pod slice \<Rightarrow>
   ReplicaSetList \<Rightarrow> ReplicaSetList" where
  "getReplicaSetList_loop descriptionAnnotationKey [] services pods replicaSetList =
     replicaSetList"
| "getReplicaSetList_loop descriptionAnnotationKey (replicaSet # rest) services pods
     replicaSetList =
     (let containerImages =
            containerImages_loop
              (elems (Containers (template_Spec (Template (rc_Spec replicaSet))))) NilSlice;
          matchingServices = getMatchingServices services replicaSet;
          (internalEndpoints, externalEndpoints) =
            endpoints_loop (elems matchingServices) (NilSlice, NilSlice);
          podInfo = getReplicaSetPodInfo replicaSet pods
      in getReplicaSetList_loop descriptionAnnotationKey rest services pods
           (replicaSetList\<lparr>ReplicaSets :=
              append_slice (ReplicaSets replicaSetList)
                \<lparr>rs_Name = Name (rc_ObjectMeta replicaSet),
                 rs_Namespace = Namespace (rc_ObjectMeta replicaSet),
                 rs_Description =
                   index_or_zero (Annotations (rc_ObjectMeta replicaSet))
                     descriptionAnnotationKey,
                 rs_Labels = Labels (rc_ObjectMeta replicaSet),
                 rs_Pods = podInfo,
                 rs_ContainerImages = containerImages,
                 rs_CreationTime = CreationTimestamp (rc_ObjectMeta replicaSet),
                 rs_InternalEndpoints = internalEndpoints,
                 rs_ExternalEndpoints = externalEndpoints\<rparr>\<rparr>))"

definition getReplicaSetList ::
  "string \<Rightarrow> ReplicationController slice \<Rightarrow> Service slice \<Rightarrow> Pod slice \<Rightarrow> ReplicaSetList" where
  "getReplicaSetList descriptionAnnotationKey replicaSets services pods =
     getReplicaSetList_loop descriptionAnnotationKey (elems replicaSets) services pods
       \<lparr>ReplicaSets = Slice []\<rparr>"

section \<open>The vocabulary of the properties\<close>

text \<open>
  Every slice of the file is built by \<open>append\<close> in a loop. \<open>grow s xs\<close> is the slice
  after appending the elements \<open>xs\<close> to \<open>s\<close> one by one: \<open>s\<close> itself, still \<open>nil\<close> if it
  was, when there was nothing to append. \<open>serviceMatches\<close> and \<open>podMatches\<close> name the two
  join conditions, \<open>phaseCount\<close> the number of matched pods of one phase, \<open>internalOf\<close>
  and \<open>externalOf\<close> the endpoints one service gives, and \<open>toReplicaSet\<close> the record
  one replica set gives.
\<close>

definition grow :: "'a slice \<Rightarrow> 'a list \<Rightarrow> 'a slice" where
  "grow s xs = (if xs = [] then s else Slice (elems s @ xs))"

definition serviceMatches :: "ReplicationController \<Rightarrow> Service \<Rightarrow> bool" where
  "serviceMatches replicaSet service =
     (Namespace (svc_ObjectMeta service) = Namespace (rc_ObjectMeta replicaSet) \<and>
      isLabelSelectorMatching (svc_Selector (svc_Spec service)) (rc_Selector (rc_Spec replicaSet)))"

definition podMatches :: "ReplicationController \<Rightarrow> Pod \<Rightarrow> bool" where
  "podMatches replicaSet pod =
     (Namespace (pod_ObjectMeta pod) = Namespace (rc_ObjectMeta replicaSet) \<and>
      isLabelSelectorMatching (rc_Selector (rc_Spec replicaSet)) (Labels (pod_ObjectMeta pod)))"

definition phaseCount :: "ReplicationController \<Rightarrow> PodPhase \<Rightarrow> Pod list \<Rightarrow> int" where
  "phaseCount rs ph ps =
     int (length (filter (\<lambda>pod. podMatches rs pod \<and> Phase (pod_Status pod) = ph) ps))"

definition internalOf :: "Service \<Rightarrow> Endpoint" where
  "internalOf service =
     getInternalEndpoint (Name (svc_ObjectMeta service)) (Namespace (svc_ObjectMeta service))
       (Ports (svc_Spec service))"

definition externalOf :: "Service \<Rightarrow> Endpoint list" where
  "externalOf service =
     map (\<lambda>externalIP. getExternalEndpoint externalIP (Ports (svc_Spec service)))
       (elems (Ingress (LoadBalancer (svc_Status service))))"

definition toReplicaSet ::
  "string \<Rightarrow> Service slice \<Rightarrow> Pod slice \<Rightarrow> ReplicationController \<Rightarrow> ReplicaSet" where
  "toReplicaSet descriptionAnnotationKey services pods replicaSet =
     \<lparr>rs_Name = Name (rc_ObjectMeta replicaSet),
      rs_Namespace = Namespace (rc_ObjectMeta replicaSet),
      rs_Description =
        index_or_zero (Annotations (rc_ObjectMeta replicaSet)) descriptionAnnotationKey,
      rs_Labels = Labels (rc_ObjectMeta replicaSet),
      rs_Pods = getReplicaSetPodInfo replicaSet pods,
      rs_ContainerImages =
        grow NilSlice
          (map Image (elems (Containers (template_Spec (Template (rc_Spec replicaSet)))))),
      rs_CreationTime = CreationTimestamp (rc_ObjectMeta replicaSet),
      rs_InternalEndpoints =
        grow NilSlice (map internalOf (filter (serviceMatches replicaSet) (elems services))),
      rs_ExternalEndpoints =
        grow NilSlice
          (concat (map externalOf (filter (serviceMatches replicaSet) (elems services))))\<rparr>"


subsection \<open>A small cluster\<close>

text \<open>
  The objects of the scenario of the specification, used to run the functions on concrete
  input: a replica set \<open>rs1\<close> in namespace \<open>ns\<close> with selector \<open>{app: x}\<close> (and
  \<open>rs2\<close>, the same under another name), a service \<open>svc1\<close> in \<open>ns\<close> with the same
  selector, port 80 and one ingress address (\<open>svc2\<close> and \<open>svc4\<close> the same under other
  names, with two ingress addresses and with none; \<open>svc3\<close> the same in another namespace),
  and pods labelled \<open>{app: x, tier: y}\<close>.
\<close>

definition rs1 :: ReplicationController where
  "rs1 =
     \<lparr>rc_ObjectMeta =
        \<lparr>Name = ''rs1'', Namespace = ''ns'', Labels = GoMap [(''app'', ''x'')],
         Annotations = NilMap, CreationTimestamp = 0\<rparr>,
      rc_Spec =
        \<lparr>rc_Replicas = 2, rc_Selector = GoMap [(''app'', ''x'')],
         Template = \<lparr>template_Spec = \<lparr>Containers = Slice [\<lparr>Image = ''img''\<rparr>]\<rparr>\<rparr>\<rparr>,
      rc_Status = \<lparr>status_Replicas = 3\<rparr>\<rparr>"

definition rs2 :: ReplicationController where
  "rs2 = rs1\<lparr>rc_ObjectMeta := (rc_ObjectMeta rs1)\<lparr>Name := ''rs2''\<rparr>\<rparr>"

definition svc1 :: Service where
  "svc1 =
     \<lparr>svc_ObjectMeta =
        \<lparr>Name = ''svc1'', Namespace = ''ns'', Labels = NilMap, Annotations = NilMap,
         CreationTimestamp = 0\<rparr>,
      svc_Spec =
        \<lparr>svc_Selector = GoMap [(''app'', ''x'')],
         Ports = Slice [\<lparr>Port = 80, Protocol = ''TCP''\<rparr>]\<rparr>,
      svc_Status = \<lparr>LoadBalancer = \<lparr>Ingress = Slice [''1.2.3.4'']\<rparr>\<rparr>\<rparr>"

definition svc2 :: Service where
  "svc2 =
     svc1\<lparr>svc_ObjectMeta := (svc_ObjectMeta svc1)\<lparr>Name := ''svc2''\<rparr>,
          svc_Status := \<lparr>LoadBalancer = \<lparr>Ingress = Slice [''5.6.7.8'', ''5.6.7.9'']\<rparr>\<rparr>\<rparr>"

definition svc3 :: Service where
  "svc3 = svc1\<lparr>svc_ObjectMeta := (svc_ObjectMeta svc1)\<lparr>Namespace := ''other''\<rparr>\<rparr>"

definition svc4 :: Service where
  "svc4 =
     svc1\<lparr>svc_ObjectMeta := (svc_ObjectMeta svc1)\<lparr>Name := ''svc4''\<rparr>,
          svc_Status := \<lparr>LoadBalancer = \<lparr>Ingress = NilSlice\<rparr>\<rparr>\<rparr>"

definition mkPod :: "string \<Rightarrow> string \<Rightarrow> PodPhase \<Rightarrow> Pod" where
  "mkPod name namespace phase =
     \<lparr>pod_ObjectMeta =
        \<lparr>Name = name, Namespace = namespace,
         Labels = GoMap [(''app'', ''x''), (''tier'', ''y'')],
         Annotations = NilMap, CreationTimestamp = 0\<rparr>,
      pod_Status = \<lparr>Phase = phase\<rparr>\<rparr>"

definition p1 :: Pod where "p1 = mkPod ''p1'' ''ns'' PodRunning"
definition p2 :: Pod where "p2 = mkPod ''p2'' ''ns'' PodPending"
definition p3 :: Pod where "p3 = mkPod ''p3'' ''other'' PodRunning"
definition p4 :: Pod where "p4 = mkPod ''p4'' ''ns'' PodSucceeded"

section \<open>What the loops compute\<close>

lemma grow_Nil [simp]: "grow s [] = s"
  by (simp add: grow_def)

lemma append_slice_grow: "append_slice s x = grow s [x]"
  by (cases s) (simp_all add: grow_def)

lemma grow_grow: "grow (grow s xs) ys = grow s (xs @ ys)"
  by (simp add: grow_def)

lemma elems_grow [simp]: "elems (grow s xs) = elems s @ xs"
  by (simp add: grow_def)

lemma isLabelSelectorMatching_loop_iff:
  "isLabelSelectorMatching_loop kvs L = (\<forall>(k, v) \<in> set kvs. index_map L k = Some v)"
  by (induction kvs L rule: isLabelSelectorMatching_loop.induct) (auto split: option.splits)

lemma getMatchingServices_loop_grow:
  "getMatchingServices_loop ss rs acc = grow acc (filter (serviceMatches rs) ss)"
  by (induction ss arbitrary: acc)
     (simp_all add: append_slice_grow grow_grow serviceMatches_def)

lemma getMatchingServices_grow:
  "getMatchingServices services rs = grow NilSlice (filter (serviceMatches rs) (elems services))"
  by (simp add: getMatchingServices_def getMatchingServices_loop_grow)

lemma getReplicaSetPodInfo_loop_counts:
  "getReplicaSetPodInfo_loop rs ps result =
     result\<lparr>Running := Running result + phaseCount rs PodRunning ps,
            Waiting := Waiting result + phaseCount rs PodPending ps,
            Failed := Failed result + phaseCount rs PodFailed ps\<rparr>"
proof (induction ps arbitrary: result)
  case Nil
  show ?case by (simp add: phaseCount_def)
next
  case (Cons pod ps)
  show ?case
    by (cases "Phase (pod_Status pod)")
       (simp_all add: Cons.IH phaseCount_def podMatches_def)
qed

lemma containerImages_loop_grow:
  "containerImages_loop cs acc = grow acc (map Image cs)"
  by (induction cs arbitrary: acc) (simp_all add: append_slice_grow grow_grow)

lemma externalEndpoints_loop_grow:
  "externalEndpoints_loop ips ports acc = grow acc (map (\<lambda>ip. getExternalEndpoint ip ports) ips)"
  by (induction ips arbitrary: acc) (simp_all add: append_slice_grow grow_grow)

lemma endpoints_loop_grow:
  "endpoints_loop ss (ie, ee) =
     (grow ie (map internalOf ss), grow ee (concat (map externalOf ss)))"
  by (induction ss arbitrary: ie ee)
     (simp_all add: append_slice_grow grow_grow externalEndpoints_loop_grow
        internalOf_def externalOf_def)

lemma getReplicaSetList_loop_grow:
  "getReplicaSetList_loop k rss services pods l =
     l\<lparr>ReplicaSets := grow (ReplicaSets l) (map (toReplicaSet k services pods) rss)\<rparr>"
proof (induction rss arbitrary: l)
  case Nil
  show ?case by simp
next
  case (Cons r rss)
  show ?case
    by (simp add: Cons.IH Let_def endpoints_loop_grow containerImages_loop_grow
          getMatchingServices_grow append_slice_grow grow_grow toReplicaSet_def)
qed

lemma getReplicaSetList_map:
  "getReplicaSetList k replicaSets services pods =
     \<lparr>ReplicaSets = Slice (map (toReplicaSet k services pods) (elems replicaSets))\<rparr>"
  by (simp add: getReplicaSetList_def getReplicaSetList_loop_grow grow_def)

lemma getReplicaSetPodInfo_counts:
  "getReplicaSetPodInfo rs pods =
     \<lparr>Curret = status_Replicas (rc_Status rs), Desired = rc_Replicas (rc_Spec rs),
      Running = phaseCount rs PodRunning (elems pods),
      Waiting = phaseCount rs PodPending (elems pods),
      Failed = phaseCount rs PodFailed (elems pods)\<rparr>"
  by (simp add: getReplicaSetPodInfo_def getReplicaSetPodInfo_loop_counts)

lemma phaseCount_sum_le:
  "phaseCount rs PodRunning ps + phaseCount rs PodPending ps + phaseCount rs PodFailed ps
     \<le> int (length (filter (podMatches rs) ps))"
  by (induction ps) (auto simp add: phaseCount_def)

lemma phaseCount_skip:
  "\<not> (podMatches rs p \<and> Phase (pod_Status p) = ph) \<Longrightarrow>
     phaseCount rs ph (ps @ p # qs) = phaseCount rs ph (ps @ qs)"
  by (auto simp add: phaseCount_def)




lemmas scenario_defs =
  rs1_def rs2_def svc1_def svc2_def svc3_def svc4_def mkPod_def p1_def p2_def p3_def p4_def

lemmas eval_defs =
  isLabelSelectorMatching_def len_map_def index_map_def index_or_zero_def
  getMatchingServices_def getReplicaSetPodInfo_def getReplicaSetList_def
  getInternalEndpoint_def getExternalEndpoint_def
  serviceMatches_def podMatches_def phaseCount_def

section \<open>The selector matcher\<close>

text \<open>
  C1. For a selector \<open>S\<close> that is not empty, \<open>isLabelSelectorMatching S L\<close> is true exactly
  when every entry \<open>(k, v)\<close> of \<open>S\<close> is found in \<open>L\<close> with the same value. Labels that
  agree with \<open>L\<close> on the keys of \<open>S\<close> give the same answer, whatever else they hold: the
  keys of \<open>L\<close> outside \<open>S\<close> play no part, so the test is containment, not equality.
\<close>

theorem isLabelSelectorMatching_containment:
  "len_map S \<noteq> 0 \<Longrightarrow>
     (isLabelSelectorMatching S L \<longleftrightarrow>
        (\<forall>(k, v) \<in> set (entries S). index_map L k = Some v)) \<and>
     (\<forall>L'. (\<forall>k \<in> fst ` set (entries S). index_map L' k = index_map L k) \<longrightarrow>
        isLabelSelectorMatching S L' = isLabelSelectorMatching S L)"
proof -
  assume nonempty: "len_map S \<noteq> 0"
  have iff: "isLabelSelectorMatching S M \<longleftrightarrow>
      (\<forall>(k, v) \<in> set (entries S). index_map M k = Some v)" for M
    using nonempty by (simp add: isLabelSelectorMatching_def isLabelSelectorMatching_loop_iff)
  have "isLabelSelectorMatching S L' = isLabelSelectorMatching S L"
    if agree: "\<forall>k \<in> fst ` set (entries S). index_map L' k = index_map L k" for L'
  proof -
    have "index_map L' k = index_map L k" if "(k, v) \<in> set (entries S)" for k v
      using agree that by force
    then show ?thesis
      unfolding iff by (metis (mono_tags, lifting) case_prodD case_prodI2)
  qed
  with iff [of L] show ?thesis by blast
qed

theorem isLabelSelectorMatching_containment_witness:
  "len_map (GoMap [(''app'', ''x'')]) \<noteq> 0 \<and>
   isLabelSelectorMatching (GoMap [(''app'', ''x'')]) (GoMap [(''app'', ''x'')]) \<and>
   isLabelSelectorMatching (GoMap [(''app'', ''x'')])
     (GoMap [(''app'', ''x''), (''tier'', ''y'')]) \<and>
   \<not> isLabelSelectorMatching (GoMap [(''app'', ''x'')]) (GoMap [(''app'', ''z'')]) \<and>
   \<not> isLabelSelectorMatching (GoMap [(''app'', ''x'')]) (GoMap [(''tier'', ''y'')])"
  using isLabelSelectorMatching_containment
    [of "GoMap [(''app'', ''x'')]" "GoMap [(''app'', ''x'')]"]
  by (simp add: len_map_def index_map_def isLabelSelectorMatching_def)

text \<open>
  C2. A selector of length zero, the \<open>nil\<close> map or an empty one, matches no labels at all.
\<close>

theorem isLabelSelectorMatching_empty_selector:
  "len_map S = 0 \<Longrightarrow> \<not> isLabelSelectorMatching S L"
  by (simp add: isLabelSelectorMatching_def)

theorem isLabelSelectorMatching_empty_selector_witness:
  "len_map NilMap = 0 \<and> len_map (GoMap []) = 0 \<and>
   \<not> isLabelSelectorMatching NilMap (GoMap [(''app'', ''x'')]) \<and>
   \<not> isLabelSelectorMatching (GoMap []) (GoMap [(''app'', ''x'')]) \<and>
   \<not> isLabelSelectorMatching (GoMap []) NilMap"
  using isLabelSelectorMatching_empty_selector [of NilMap "GoMap [(''app'', ''x'')]"]
    isLabelSelectorMatching_empty_selector [of "GoMap []" "GoMap [(''app'', ''x'')]"]
    isLabelSelectorMatching_empty_selector [of "GoMap []" NilMap]
  by (simp add: len_map_def)

section \<open>Pods of a replica set\<close>

text \<open>
  C3. The three counters of the pod summary are the numbers of pods of \<open>P\<close> that are in
  the namespace of \<open>R\<close> with labels matching the selector of \<open>R\<close> (\<open>podMatches\<close>) and
  are running, pending and failed. Their sum is at most the number of matched pods, and
  a pod in any other phase can be taken out of \<open>P\<close> without changing the summary.
\<close>


theorem getReplicaSetPodInfo_buckets:
  "Running (getReplicaSetPodInfo R P) = phaseCount R PodRunning (elems P) \<and>
   Waiting (getReplicaSetPodInfo R P) = phaseCount R PodPending (elems P) \<and>
   Failed (getReplicaSetPodInfo R P) = phaseCount R PodFailed (elems P) \<and>
   Running (getReplicaSetPodInfo R P) + Waiting (getReplicaSetPodInfo R P) +
     Failed (getReplicaSetPodInfo R P) \<le> int (length (filter (podMatches R) (elems P))) \<and>
   (Phase (pod_Status p) \<notin> {PodRunning, PodPending, PodFailed} \<longrightarrow>
      getReplicaSetPodInfo R (Slice (ps @ p # qs)) = getReplicaSetPodInfo R (Slice (ps @ qs)))"
  using phaseCount_sum_le [of R "elems P"]
  by (simp add: getReplicaSetPodInfo_counts phaseCount_skip)

theorem getReplicaSetPodInfo_buckets_witness:
  "Running (getReplicaSetPodInfo rs1 (Slice [p1, p2, p3, p4])) = 1 \<and>
   Waiting (getReplicaSetPodInfo rs1 (Slice [p1, p2, p3, p4])) = 1 \<and>
   Failed (getReplicaSetPodInfo rs1 (Slice [p1, p2, p3, p4])) = 0 \<and>
   length (filter (podMatches rs1) [p1, p2, p3, p4]) = 3 \<and>
   Phase (pod_Status p4) \<notin> {PodRunning, PodPending, PodFailed} \<and>
   getReplicaSetPodInfo rs1 (Slice [p1, p2, p3, p4]) =
     getReplicaSetPodInfo rs1 (Slice [p1, p2, p3])"
  using getReplicaSetPodInfo_buckets [of rs1 "Slice [p1, p2, p3, p4]" p4 "[p1, p2, p3]" "[]"]
  by (simp add: scenario_defs eval_defs)

text \<open>
  C7. \<open>Desired\<close> and \<open>Curret\<close> are the declared replica counts of the specification and
  of the status of the replica set, whatever the pods are.
\<close>


theorem getReplicaSetPodInfo_declared_counts:
  "Desired (getReplicaSetPodInfo R P) = rc_Replicas (rc_Spec R) \<and>
   Curret (getReplicaSetPodInfo R P) = status_Replicas (rc_Status R)"
  by (simp add: getReplicaSetPodInfo_counts)

theorem getReplicaSetPodInfo_declared_counts_witness:
  "Desired (getReplicaSetPodInfo rs1 (Slice [p1, p2, p3, p4])) = 2 \<and>
   Curret (getReplicaSetPodInfo rs1 (Slice [p1, p2, p3, p4])) = 3 \<and>
   Desired (getReplicaSetPodInfo rs1 NilSlice) = 2 \<and>
   Curret (getReplicaSetPodInfo rs1 NilSlice) = 3"
  using getReplicaSetPodInfo_declared_counts [of rs1 "Slice [p1, p2, p3, p4]"]
    getReplicaSetPodInfo_declared_counts [of rs1 NilSlice]
  by (simp add: scenario_defs)

section \<open>Services of a replica set\<close>

text \<open>
  C6, as the specification states it, asks for a slice that is never \<open>nil\<close>. The
  function declares \<open>var matchingServices []api.Service\<close> and returns it untouched when no
  service matches: the result is the \<open>nil\<close> slice.
\<close>


theorem getMatchingServices_nil_counterexample:
  "filter (serviceMatches rs1) (elems (Slice [svc3])) = [] \<and>
   getMatchingServices (Slice [svc3]) rs1 = NilSlice \<and>
   getMatchingServices (Slice [svc3]) rs1 \<noteq> Slice []"
  by (simp add: scenario_defs eval_defs)

text \<open>
  C6, amended. The result holds the matching services in the order of the input, and it
  is the \<open>nil\<close> slice exactly when no service matches.
\<close>

theorem getMatchingServices_stable_filter:
  "elems (getMatchingServices svcs R) = filter (serviceMatches R) (elems svcs) \<and>
   (getMatchingServices svcs R = NilSlice \<longleftrightarrow> filter (serviceMatches R) (elems svcs) = [])"
  by (simp add: getMatchingServices_grow grow_def)

theorem getMatchingServices_stable_filter_witness:
  "elems (getMatchingServices (Slice [svc2, svc3, svc1]) rs1) = [svc2, svc1] \<and>
   filter (serviceMatches rs1) [svc2, svc3, svc1] = [svc2, svc1] \<and>
   getMatchingServices (Slice [svc2, svc3, svc1]) rs1 \<noteq> NilSlice \<and>
   getMatchingServices (Slice [svc3]) rs1 = NilSlice"
  using getMatchingServices_stable_filter [of "Slice [svc2, svc3, svc1]" rs1]
    getMatchingServices_stable_filter [of "Slice [svc3]" rs1]
  by (simp add: scenario_defs eval_defs)

text \<open>
  C4. A service in another namespace than the replica set is not among the matching
  services, and the result is the one computed without it; a pod in another namespace
  can be taken out of the pods without changing the summary. Nothing is asked of the
  selectors or labels.
\<close>


theorem namespace_isolation:
  "(Namespace (svc_ObjectMeta s) \<noteq> Namespace (rc_ObjectMeta R) \<longrightarrow>
      s \<notin> set (elems (getMatchingServices svcs R)) \<and>
      getMatchingServices (Slice (ss @ s # ts)) R = getMatchingServices (Slice (ss @ ts)) R) \<and>
   (Namespace (pod_ObjectMeta p) \<noteq> Namespace (rc_ObjectMeta R) \<longrightarrow>
      getReplicaSetPodInfo R (Slice (ps @ p # qs)) = getReplicaSetPodInfo R (Slice (ps @ qs)))"
proof -
  have "\<not> serviceMatches R s"
    if "Namespace (svc_ObjectMeta s) \<noteq> Namespace (rc_ObjectMeta R)"
    using that by (simp add: serviceMatches_def)
  moreover have "\<not> podMatches R p"
    if "Namespace (pod_ObjectMeta p) \<noteq> Namespace (rc_ObjectMeta R)"
    using that by (simp add: podMatches_def)
  ultimately show ?thesis
    by (auto simp add: getMatchingServices_grow getReplicaSetPodInfo_counts phaseCount_skip)
qed

theorem namespace_isolation_witness:
  "Namespace (svc_ObjectMeta svc3) \<noteq> Namespace (rc_ObjectMeta rs1) \<and>
   Namespace (pod_ObjectMeta p3) \<noteq> Namespace (rc_ObjectMeta rs1) \<and>
   isLabelSelectorMatching (svc_Selector (svc_Spec svc3)) (rc_Selector (rc_Spec rs1)) \<and>
   isLabelSelectorMatching (rc_Selector (rc_Spec rs1)) (Labels (pod_ObjectMeta p3)) \<and>
   svc3 \<notin> set (elems (getMatchingServices (Slice [svc1, svc3]) rs1)) \<and>
   getMatchingServices (Slice [svc1, svc3]) rs1 = getMatchingServices (Slice [svc1]) rs1 \<and>
   getReplicaSetPodInfo rs1 (Slice [p1, p3, p2]) = getReplicaSetPodInfo rs1 (Slice [p1, p2])"
  using namespace_isolation [of svc3 rs1 "Slice [svc1, svc3]" "[svc1]" "[]" p3 "[p1]" "[p2]"]
  by (simp add: scenario_defs eval_defs)

section \<open>The list of replica sets\<close>

text \<open>
  C5. In the record of the \<open>i\<close>-th replica set, the internal endpoints are one per
  matching service, made of its name, namespace and ports, in the order of the matching
  services; the external endpoints are, service after service in that order, one per
  entry of its load-balancer ingress list in the order of the list, each with the
  ports of the service. A service without ingress entries gives no external endpoint.
\<close>


theorem getReplicaSetList_endpoints:
  "i < length (elems rss) \<Longrightarrow>
     (let R = elems rss ! i;
          out = elems (ReplicaSets (getReplicaSetList k rss svcs pods)) ! i;
          ms = elems (getMatchingServices svcs R)
      in elems (rs_InternalEndpoints out) =
           map (\<lambda>s. InternalEndpoint (Name (svc_ObjectMeta s)) (Namespace (svc_ObjectMeta s))
                  (Ports (svc_Spec s))) ms \<and>
         elems (rs_ExternalEndpoints out) =
           concat (map (\<lambda>s. map (\<lambda>a. ExternalEndpoint a (Ports (svc_Spec s)))
                          (elems (Ingress (LoadBalancer (svc_Status s))))) ms))"
proof -
  assume i: "i < length (elems rss)"
  have internal: "internalOf =
      (\<lambda>s. InternalEndpoint (Name (svc_ObjectMeta s)) (Namespace (svc_ObjectMeta s))
         (Ports (svc_Spec s)))"
    by (rule ext) (simp add: internalOf_def getInternalEndpoint_def)
  have external: "externalOf =
      (\<lambda>s. map (\<lambda>a. ExternalEndpoint a (Ports (svc_Spec s)))
         (elems (Ingress (LoadBalancer (svc_Status s)))))"
    by (rule ext) (simp add: externalOf_def getExternalEndpoint_def)
  from i show ?thesis
    by (simp add: getReplicaSetList_map toReplicaSet_def getMatchingServices_grow Let_def
          internal external)
qed

theorem getReplicaSetList_endpoints_witness:
  "(0::nat) < length (elems (Slice [rs1])) \<and>
   elems (getMatchingServices (Slice [svc2, svc3, svc4, svc1]) rs1) = [svc2, svc4, svc1] \<and>
   elems (rs_InternalEndpoints
     (elems (ReplicaSets
        (getReplicaSetList ''description'' (Slice [rs1]) (Slice [svc2, svc3, svc4, svc1])
           (Slice [p1]))) ! 0)) =
     [InternalEndpoint ''svc2'' ''ns'' (Slice [\<lparr>Port = 80, Protocol = ''TCP''\<rparr>]),
      InternalEndpoint ''svc4'' ''ns'' (Slice [\<lparr>Port = 80, Protocol = ''TCP''\<rparr>]),
      InternalEndpoint ''svc1'' ''ns'' (Slice [\<lparr>Port = 80, Protocol = ''TCP''\<rparr>])] \<and>
   elems (rs_ExternalEndpoints
     (elems (ReplicaSets
        (getReplicaSetList ''description'' (Slice [rs1]) (Slice [svc2, svc3, svc4, svc1])
           (Slice [p1]))) ! 0)) =
     [ExternalEndpoint ''5.6.7.8'' (Slice [\<lparr>Port = 80, Protocol = ''TCP''\<rparr>]),
      ExternalEndpoint ''5.6.7.9'' (Slice [\<lparr>Port = 80, Protocol = ''TCP''\<rparr>]),
      ExternalEndpoint ''1.2.3.4'' (Slice [\<lparr>Port = 80, Protocol = ''TCP''\<rparr>])]"
  using getReplicaSetList_endpoints
    [of 0 "Slice [rs1]" "''description''" "Slice [svc2, svc3, svc4, svc1]" "Slice [p1]"]
  by (simp add: scenario_defs eval_defs Let_def)

text \<open>
  C8. The function has a result on every input, with no error among its results: a list
  whose slice is not \<open>nil\<close> and holds one record per replica set. With no replica set
  (a \<open>nil\<close> or an empty collection) the result is the empty, non-\<open>nil\<close> list, whatever the
  services and pods are.
\<close>


theorem getReplicaSetList_total:
  "(\<exists>out. ReplicaSets (getReplicaSetList k rss svcs pods) = Slice out \<and>
      length out = length (elems rss)) \<and>
   (elems rss = [] \<longrightarrow> getReplicaSetList k rss svcs pods = \<lparr>ReplicaSets = Slice []\<rparr>)"
  by (simp add: getReplicaSetList_map)

theorem getReplicaSetList_total_witness:
  "getReplicaSetList ''description'' NilSlice NilSlice NilSlice = \<lparr>ReplicaSets = Slice []\<rparr> \<and>
   getReplicaSetList ''description'' (Slice []) (Slice [svc1]) (Slice [p1, p2]) =
     \<lparr>ReplicaSets = Slice []\<rparr> \<and>
   ReplicaSets (getReplicaSetList ''description'' NilSlice (Slice [svc1]) (Slice [p1, p2])) \<noteq>
     NilSlice \<and>
   length (elems (ReplicaSets
     (getReplicaSetList ''description'' (Slice [rs1, rs2]) (Slice [svc1]) (Slice [p1, p2])))) = 2"
  using getReplicaSetList_total [of "''description''" NilSlice NilSlice NilSlice]
    getReplicaSetList_total [of "''description''" "Slice []" "Slice [svc1]" "Slice [p1, p2]"]
    getReplicaSetList_total [of "''description''" NilSlice "Slice [svc1]" "Slice [p1, p2]"]
    getReplicaSetList_total [of "''description''" "Slice [rs1, rs2]" "Slice [svc1]" "Slice [p1, p2]"]
  by (simp add: scenario_defs eval_defs Let_def)




text \<open>
  C10. The replica sets \<open>rs1\<close> and \<open>rs2\<close> are distinct, the service \<open>svc1\<close> is among the
  matching services of both and its endpoint is in both records, and the pod \<open>p1\<close> is
  counted as running for both. In general the records of a list of replica sets are those
  of its first part followed by those of the rest, each computed against all services and
  all pods: no replica set takes an object away from another.
\<close>


theorem no_exclusive_ownership:
  "rs1 \<noteq> rs2 \<and>
   svc1 \<in> set (elems (getMatchingServices (Slice [svc1]) rs1)) \<and>
   svc1 \<in> set (elems (getMatchingServices (Slice [svc1]) rs2)) \<and>
   Running (getReplicaSetPodInfo rs1 (Slice [p1])) = 1 \<and>
   Running (getReplicaSetPodInfo rs2 (Slice [p1])) = 1 \<and>
   map (\<lambda>r. (rs_Name r, rs_InternalEndpoints r, Running (rs_Pods r)))
     (elems (ReplicaSets
        (getReplicaSetList ''description'' (Slice [rs1, rs2]) (Slice [svc1]) (Slice [p1])))) =
     [(''rs1'', Slice [InternalEndpoint ''svc1'' ''ns'' (Slice [\<lparr>Port = 80, Protocol = ''TCP''\<rparr>])], 1),
      (''rs2'', Slice [InternalEndpoint ''svc1'' ''ns'' (Slice [\<lparr>Port = 80, Protocol = ''TCP''\<rparr>])], 1)] \<and>
   elems (ReplicaSets (getReplicaSetList k (Slice (xs @ ys)) svcs pods)) =
     elems (ReplicaSets (getReplicaSetList k (Slice xs) svcs pods)) @
     elems (ReplicaSets (getReplicaSetList k (Slice ys) svcs pods))"
proof -
  have "elems (ReplicaSets (getReplicaSetList k (Slice (xs @ ys)) svcs pods)) =
     elems (ReplicaSets (getReplicaSetList k (Slice xs) svcs pods)) @
     elems (ReplicaSets (getReplicaSetList k (Slice ys) svcs pods))"
    by (simp add: getReplicaSetList_map)
  moreover have "rs1 \<noteq> rs2"
    by (simp add: scenario_defs)
  ultimately show ?thesis
    by (simp add: scenario_defs eval_defs Let_def)
qed

theorem no_exclusive_ownership_witness:
  "map rs_Name (elems (ReplicaSets
     (getReplicaSetList ''description'' (Slice ([rs1] @ [rs2])) (Slice [svc1]) (Slice [p1])))) =
     [''rs1'', ''rs2''] \<and>
   elems (ReplicaSets
     (getReplicaSetList ''description'' (Slice ([rs1] @ [rs2])) (Slice [svc1]) (Slice [p1]))) =
   elems (ReplicaSets
     (getReplicaSetList ''description'' (Slice [rs1]) (Slice [svc1]) (Slice [p1]))) @
   elems (ReplicaSets
     (getReplicaSetList ''description'' (Slice [rs2]) (Slice [svc1]) (Slice [p1])))"
  using no_exclusive_ownership [of "''description''" "[rs1]" "[rs2]" "Slice [svc1]" "Slice [p1]"]
  by (simp add: scenario_defs eval_defs Let_def)

end
